theory Spec2Isabelle
  imports Main "HOL-Library.Multiset"
begin

section \<open>Exercise tracker: the handlers of index.js\<close>

text \<open>
  The application is four route handlers over two collections of a document store
  (users and exercises). The handlers are embedded as functions from the request and
  the store to the response and the new store. What the handlers call but do not
  define is made explicit:
  \<^item> the JavaScript built-ins \<open>new Date(string)\<close>, \<open>Date.prototype.toDateString\<close> and
    \<open>parseInt\<close>, and the store's cast of a string to a document identifier, are
    parameters (the record \<open>builtins\<close>);
  \<^item> the clock (\<open>new Date()\<close>) is a parameter of each request, \<open>now\<close>; the value it
    had when the schema was defined (line 41) is the parameter \<open>start\<close>;
  \<^item> the document store is modelled by what the schemas of lines 31-43 declare
    (required, unique, default) and by the query semantics of the store behind them
    (casting of query values, sort before limit, limit 0);
  \<^item> document identifiers are the values the store generates; the \<open>:_id\<close> of a route is
    a string, which the store casts to an identifier when it is used in a query, and
    which need not be the string form of any identifier.
\<close>

subsection \<open>JavaScript values\<close>

text \<open>A \<open>Date\<close> object holds a time value in milliseconds since the epoch, or is the
  Invalid Date. \<open>parseInt\<close> yields an integer or NaN; the numerals beyond the range of
  a double, which it reads as an infinity, are not values of this type.\<close>

datatype jsdate = InvalidDate | Date int

datatype number = NaN | Num int

text \<open>Document identifiers (ObjectIds) are abstract values. \<open>castObjectId\<close> is the cast
  the store applies to a string that stands where an identifier is expected: \<open>None\<close>
  when the string is not the string form of an identifier.\<close>

type_synonym oid = nat

record builtins =
  newDate :: "string \<Rightarrow> jsdate"
  toDateString :: "int \<Rightarrow> string"
  parseInt :: "string \<Rightarrow> number"
  castObjectId :: "string \<Rightarrow> oid option"

text \<open>Form fields and query parameters are absent (\<open>undefined\<close>) or strings. A string is
  truthy when it is not empty; \<open>given\<close> keeps the value of a truthy field.\<close>

definition given :: "string option \<Rightarrow> string option" where
  "given v = (case v of None \<Rightarrow> None | Some s \<Rightarrow> if s = [] then None else Some s)"

definition truthy :: "string option \<Rightarrow> bool" where
  "truthy v = (given v \<noteq> None)"

subsection \<open>The store\<close>

record user =
  user_id :: oid
  username :: string

record exercise =
  exercise_id :: oid
  userId :: oid
  description :: string
  duration :: int
  date :: int

text \<open>The two collections keep insertion order. \<open>next_oid\<close> is the generator of document
  identifiers.\<close>

record db =
  users :: "user list"
  exercises :: "exercise list"
  next_oid :: oid

datatype store_error = ValidationError | DuplicateKey | CastError | BadValue

text \<open>\<open>new User({ username }).save()\<close> under \<open>userSchema\<close> (lines 31-33): \<open>username\<close> is
  required (an absent or empty string fails validation) and unique (a second document
  with the same value is refused by the index).\<close>

definition User_save :: "db \<Rightarrow> string option \<Rightarrow> store_error + user \<times> db" where
  "User_save s name =
     (case name of
        None \<Rightarrow> Inl ValidationError
      | Some n \<Rightarrow>
          if n = [] then Inl ValidationError
          else if n \<in> set (map username (users s)) then Inl DuplicateKey
          else let u = \<lparr>user_id = next_oid s, username = n\<rparr>
               in Inr (u, s\<lparr>users := users s @ [u], next_oid := Suc (next_oid s)\<rparr>))"

text \<open>\<open>User.findById(req.params._id)\<close>: the string is cast to an identifier first; a
  string that does not cast makes the call fail with a cast error, not yield \<open>null\<close>.\<close>

definition User_findById :: "builtins \<Rightarrow> db \<Rightarrow> string \<Rightarrow> store_error + user option" where
  "User_findById js s str =
     (case castObjectId js str of
        None \<Rightarrow> Inl CastError
      | Some i \<Rightarrow> Inr (find (\<lambda>u. user_id u = i) (users s)))"

text \<open>\<open>new Exercise({...}).save()\<close> under \<open>exerciseSchema\<close> (lines 37-42). The document
  handed to the model may lack a date; the schema default is the Date built once, when
  the schema was defined (\<open>start\<close>). A NaN duration and an Invalid Date do not cast and
  fail validation.\<close>

record exercise_doc =
  doc_userId :: oid
  doc_description :: string
  doc_duration :: number
  doc_date :: "jsdate option"

definition Exercise_save :: "int \<Rightarrow> db \<Rightarrow> exercise_doc \<Rightarrow> store_error + exercise \<times> db" where
  "Exercise_save start s d =
     (if doc_description d = [] then Inl ValidationError
      else case doc_duration d of
        NaN \<Rightarrow> Inl ValidationError
      | Num n \<Rightarrow>
          (case (case doc_date d of None \<Rightarrow> Date start | Some x \<Rightarrow> x) of
             InvalidDate \<Rightarrow> Inl ValidationError
           | Date t \<Rightarrow>
               let e = \<lparr>exercise_id = next_oid s, userId = doc_userId d,
                        description = doc_description d, duration = n, date = t\<rparr>
               in Inr (e, s\<lparr>exercises := exercises s @ [e], next_oid := Suc (next_oid s)\<rparr>)))"

subsection \<open>Queries on the exercises\<close>

text \<open>A query is built by chaining (\<open>find\<close>, \<open>where("date").gte(..).lte(..)\<close>, \<open>limit\<close>,
  \<open>sort\<close>) and runs at \<open>exec\<close>. The chained calls only record conditions and options; the
  store filters, then sorts, then limits, whatever the order of the calls. A bound of
  the date range is a Date object or the number 0 of line 163.\<close>

datatype bound = Bound_date jsdate | Bound_num int

record query =
  cond_userId :: string
  cond_gte :: "bound option"
  cond_lte :: "bound option"
  opt_limit :: "number option"
  opt_sort_date :: bool

definition Exercise_find :: "string \<Rightarrow> query" where
  "Exercise_find uid =
     \<lparr>cond_userId = uid, cond_gte = None, cond_lte = None, opt_limit = None,
      opt_sort_date = False\<rparr>"

definition gte :: "bound \<Rightarrow> query \<Rightarrow> query" where
  "gte b q = q\<lparr>cond_gte := Some b\<rparr>"

definition lte :: "bound \<Rightarrow> query \<Rightarrow> query" where
  "lte b q = q\<lparr>cond_lte := Some b\<rparr>"

definition limit :: "number \<Rightarrow> query \<Rightarrow> query" where
  "limit n q = q\<lparr>opt_limit := Some n\<rparr>"

definition sort_date :: "query \<Rightarrow> query" where
  "sort_date q = q\<lparr>opt_sort_date := True\<rparr>"

text \<open>Casting a bound to the type of the \<open>date\<close> path: a number is a time value, a valid
  Date is itself, the Invalid Date does not cast (the store raises a cast error).\<close>

fun castDate :: "bound \<Rightarrow> store_error + int" where
  "castDate (Bound_num n) = Inr n"
| "castDate (Bound_date (Date t)) = Inr t"
| "castDate (Bound_date InvalidDate) = Inl CastError"

fun cast_cond :: "bound option \<Rightarrow> store_error + int option" where
  "cast_cond None = Inr None"
| "cast_cond (Some b) = (case castDate b of Inl e \<Rightarrow> Inl e | Inr t \<Rightarrow> Inr (Some t))"

definition matches :: "oid \<Rightarrow> int option \<Rightarrow> int option \<Rightarrow> exercise \<Rightarrow> bool" where
  "matches uid lo hi e =
     (userId e = uid
      \<and> (case lo of None \<Rightarrow> True | Some t \<Rightarrow> t \<le> date e)
      \<and> (case hi of None \<Rightarrow> True | Some t \<Rightarrow> date e \<le> t))"

text \<open>The limit of the store, applied to the sorted result: 0 means no limit, a negative
  number limits to its absolute value, NaN is refused.\<close>

fun apply_limit :: "number option \<Rightarrow> 'a list \<Rightarrow> store_error + 'a list" where
  "apply_limit None xs = Inr xs"
| "apply_limit (Some NaN) xs = Inl BadValue"
| "apply_limit (Some (Num n)) xs = Inr (if n = 0 then xs else take (nat \<bar>n\<bar>) xs)"

definition apply_sort :: "bool \<Rightarrow> exercise list \<Rightarrow> exercise list" where
  "apply_sort b xs = (if b then sort_key date xs else xs)"

text \<open>Running a query: the conditions are cast in the order in which they were given
  (the \<open>userId\<close> of line 157, a string, then the bounds), then the store filters, sorts
  and limits.\<close>

definition exec :: "builtins \<Rightarrow> db \<Rightarrow> query \<Rightarrow> store_error + exercise list" where
  "exec js s q =
     (case castObjectId js (cond_userId q) of
        None \<Rightarrow> Inl CastError
      | Some uid \<Rightarrow>
          (case cast_cond (cond_gte q) of
             Inl e \<Rightarrow> Inl e
           | Inr lo \<Rightarrow>
               (case cast_cond (cond_lte q) of
                  Inl e \<Rightarrow> Inl e
                | Inr hi \<Rightarrow>
                    apply_limit (opt_limit q)
                      (apply_sort (opt_sort_date q)
                         (filter (matches uid lo hi) (exercises s))))))"

subsection \<open>Responses\<close>

record log_entry =
  log_description :: string
  log_duration :: int
  log_date :: string

text \<open>The JSON bodies the handlers send, with their fields in the order of the source.\<close>

datatype body =
    Error_body string
  | User_body string oid
  | Users_body "user list"
  | Exercise_body oid string string int string
  | Log_body oid string nat "log_entry list"

text \<open>A handler answers with a status and a JSON body (\<open>res.json\<close> alone is status 200),
  or an awaited store call outside every \<open>try\<close> is rejected, the exception leaves the
  handler, and the handler sends no response.\<close>

datatype outcome = Json nat body | Unhandled store_error

subsection \<open>POST /api/users\<close>

definition createUser :: "db \<Rightarrow> string option \<Rightarrow> outcome \<times> db" where
  "createUser s name =
     (case User_save s name of
        Inr (savedUser, s') \<Rightarrow> (Json 200 (User_body (username savedUser) (user_id savedUser)), s')
      | Inl err \<Rightarrow> (Json 500 (Error_body ''Could not create user''), s))"

subsection \<open>GET /api/users\<close>

definition listUsers :: "db \<Rightarrow> outcome" where
  "listUsers s = Json 200 (Users_body (users s))"

subsection \<open>POST /api/users/:_id/exercises\<close>

record exercise_req =
  params_id :: string
  body_description :: "string option"
  body_duration :: "string option"
  body_date :: "string option"

text \<open>Lines 101-108: the date of the exercise, or \<open>None\<close> for the early return of line
  105.\<close>

definition exerciseDate :: "builtins \<Rightarrow> int \<Rightarrow> string option \<Rightarrow> int option" where
  "exerciseDate js now d =
     (case given d of
        None \<Rightarrow> Some now
      | Some str \<Rightarrow> (case newDate js str of InvalidDate \<Rightarrow> None | Date t \<Rightarrow> Some t))"

definition addExercise :: "builtins \<Rightarrow> int \<Rightarrow> int \<Rightarrow> db \<Rightarrow> exercise_req \<Rightarrow> outcome \<times> db" where
  "addExercise js start now s r =
     (if \<not> truthy (body_description r) \<or> \<not> truthy (body_duration r)
      then (Json 400 (Error_body ''Description and duration are required''), s)
      else case User_findById js s (params_id r) of
        Inl err \<Rightarrow> (Unhandled err, s)
      | Inr None \<Rightarrow> (Json 404 (Error_body ''User not found''), s)
      | Inr (Some u) \<Rightarrow>
          (case exerciseDate js now (body_date r) of
             None \<Rightarrow> (Json 400 (Error_body ''Invalid date format''), s)
           | Some t \<Rightarrow>
               (case Exercise_save start s
                       \<lparr>doc_userId = user_id u,
                        doc_description = (case body_description r of None \<Rightarrow> [] | Some x \<Rightarrow> x),
                        doc_duration =
                          (case body_duration r of None \<Rightarrow> NaN | Some x \<Rightarrow> parseInt js x),
                        doc_date = Some (Date t)\<rparr> of
                  Inr (savedExercise, s') \<Rightarrow>
                    (Json 200
                       (Exercise_body (user_id u) (username u)
                          (toDateString js (date savedExercise))
                          (duration savedExercise) (description savedExercise)), s')
                | Inl err \<Rightarrow> (Json 500 (Error_body ''Failed to save exercise''), s))))"

subsection \<open>GET /api/users/:_id/logs\<close>

record logs_req =
  logs_id :: string
  query_from :: "string option"
  query_to :: "string option"
  query_limit :: "string option"

text \<open>Lines 147-170: the query as the handler builds it, up to the call of \<open>sort\<close>.\<close>

definition logQuery :: "builtins \<Rightarrow> int \<Rightarrow> logs_req \<Rightarrow> query" where
  "logQuery js now r =
     (let dateQuery_gte = map_option (newDate js) (given (query_from r));
          dateQuery_lte = map_option (newDate js) (given (query_to r));
          q0 = Exercise_find (logs_id r);
          q1 = (if truthy (query_from r) \<or> truthy (query_to r)
                then lte (case dateQuery_lte of None \<Rightarrow> Bound_date (Date now)
                                              | Some d \<Rightarrow> Bound_date d)
                       (gte (case dateQuery_gte of None \<Rightarrow> Bound_num 0
                                                 | Some d \<Rightarrow> Bound_date d) q0)
                else q0);
          q2 = (case given (query_limit r) of
                  None \<Rightarrow> q1
                | Some l \<Rightarrow> limit (parseInt js l) q1)
      in sort_date q2)"

definition formatLog :: "builtins \<Rightarrow> exercise \<Rightarrow> log_entry" where
  "formatLog js ex =
     \<lparr>log_description = description ex, log_duration = duration ex,
      log_date = toDateString js (date ex)\<rparr>"

definition getLogs :: "builtins \<Rightarrow> int \<Rightarrow> db \<Rightarrow> logs_req \<Rightarrow> outcome" where
  "getLogs js now s r =
     (case User_findById js s (logs_id r) of
        Inl err \<Rightarrow> Unhandled err
      | Inr None \<Rightarrow> Json 404 (Error_body ''User not found'')
      | Inr (Some u) \<Rightarrow>
          (case exec js s (logQuery js now r) of
             Inl err \<Rightarrow> Unhandled err
           | Inr exs \<Rightarrow>
               let formattedLog = map (formatLog js) exs
               in Json 200 (Log_body (user_id u) (username u) (length formattedLog) formattedLog)))"

subsection \<open>Sequences of requests\<close>

text \<open>The four routes as one request type; a run threads the store through a list of
  requests, each with the clock value at which it is served.\<close>

datatype request =
    Create_user "string option"
  | List_users
  | Add_exercise exercise_req
  | Get_logs logs_req

fun handle :: "builtins \<Rightarrow> int \<Rightarrow> int \<Rightarrow> db \<Rightarrow> request \<Rightarrow> outcome \<times> db" where
  "handle js start now s (Create_user name) = createUser s name"
| "handle js start now s List_users = (listUsers s, s)"
| "handle js start now s (Add_exercise r) = addExercise js start now s r"
| "handle js start now s (Get_logs r) = (getLogs js now s r, s)"

fun run :: "builtins \<Rightarrow> int \<Rightarrow> db \<Rightarrow> (int \<times> request) list \<Rightarrow> db" where
  "run js start s [] = s"
| "run js start s ((now, rq) # rest) = run js start (snd (handle js start now s rq)) rest"

subsection \<open>Auxiliary notions for the statements\<close>

text \<open>Identifiers already handed out lie below the generator.\<close>

definition oids_below :: "db \<Rightarrow> bool" where
  "oids_below s =
     ((\<forall>u \<in> set (users s). user_id u < next_oid s)
      \<and> (\<forall>e \<in> set (exercises s). exercise_id e < next_oid s))"

text \<open>The log of a user restricted to the exercises whose date satisfies \<open>P\<close>, in
  ascending order of date.\<close>

definition user_log :: "builtins \<Rightarrow> db \<Rightarrow> oid \<Rightarrow> (int \<Rightarrow> bool) \<Rightarrow> log_entry list" where
  "user_log js s uid P =
     map (formatLog js) (sort_key date (filter (\<lambda>e. userId e = uid \<and> P (date e)) (exercises s)))"

text \<open>The date filter in the words of the specification (section 4.3): a given \<open>from\<close>
  excludes the exercises dated earlier, a given \<open>to\<close> those dated later, and a bound
  that is not given excludes nothing.\<close>

definition spec_date_filter :: "int option \<Rightarrow> int option \<Rightarrow> int \<Rightarrow> bool" where
  "spec_date_filter from to d =
     ((case from of None \<Rightarrow> True | Some a \<Rightarrow> a \<le> d)
      \<and> (case to of None \<Rightarrow> True | Some b \<Rightarrow> d \<le> b))"

subsection \<open>Sample data\<close>

text \<open>An interpretation of the built-ins on the strings of the examples below (days are
  86400000 ms), and a store with one user and three exercises, dated the day before
  the epoch, one day after it and three days after it, inserted out of order. The
  string form of an identifier is 24 hexadecimal digits, read as a number.\<close>

definition hex_digit :: "char \<Rightarrow> nat option" where
  "hex_digit c =
     map_of (zip ''0123456789abcdef'' [0..<16] @ zip ''ABCDEF'' [10..<16]) c"

fun hex_value :: "nat \<Rightarrow> string \<Rightarrow> nat option" where
  "hex_value acc [] = Some acc"
| "hex_value acc (c # cs) =
     (case hex_digit c of None \<Rightarrow> None | Some d \<Rightarrow> hex_value (16 * acc + d) cs)"

definition sample_js :: builtins where
  "sample_js =
     \<lparr>newDate = (\<lambda>str.
         if str = ''1969-12-31'' then Date (- 86400000)
         else if str = ''1970-01-01'' then Date 0
         else if str = ''1970-01-02'' then Date 86400000
         else if str = ''1970-01-03'' then Date 172800000
         else if str = ''1970-01-04'' then Date 259200000
         else InvalidDate),
      toDateString = (\<lambda>t.
         if t div 86400000 = - 1 then ''Wed Dec 31 1969''
         else if t div 86400000 = 0 then ''Thu Jan 01 1970''
         else if t div 86400000 = 1 then ''Fri Jan 02 1970''
         else if t div 86400000 = 2 then ''Sat Jan 03 1970''
         else if t div 86400000 = 3 then ''Sun Jan 04 1970''
         else ''Another day''),
      parseInt = (\<lambda>str.
         if str = ''0'' then Num 0
         else if str = ''1'' then Num 1
         else if str = ''2'' then Num 2
         else if str = ''30'' then Num 30
         else if str = ''45'' then Num 45
         else NaN),
      castObjectId = (\<lambda>str. if length str = 24 then hex_value 0 str else None)\<rparr>"

definition sample_db :: db where
  "sample_db =
     \<lparr>users = [\<lparr>user_id = 0, username = ''ana''\<rparr>],
      exercises =
        [\<lparr>exercise_id = 1, userId = 0, description = ''swim'', duration = 45,
          date = 259200000\<rparr>,
         \<lparr>exercise_id = 2, userId = 0, description = ''run'', duration = 30,
          date = - 86400000\<rparr>,
         \<lparr>exercise_id = 3, userId = 0, description = ''walk'', duration = 30,
          date = 86400000\<rparr>],
      next_oid = 4\<rparr>"

definition sample_db_row :: db where
  "sample_db_row =
     \<lparr>users = [\<lparr>user_id = 0, username = ''ana''\<rparr>],
      exercises =
        [\<lparr>exercise_id = 1, userId = 0, description = ''swim'', duration = 45,
          date = 259200000\<rparr>,
         \<lparr>exercise_id = 2, userId = 0, description = ''run'', duration = 30,
          date = - 86400000\<rparr>,
         \<lparr>exercise_id = 3, userId = 0, description = ''walk'', duration = 30,
          date = 86400000\<rparr>,
         \<lparr>exercise_id = 4, userId = 0, description = ''row'', duration = 30,
          date = 172800000\<rparr>],
      next_oid = 5\<rparr>"

section \<open>Basic facts\<close>

lemma findById_None:
  "castObjectId js str = Some i \<Longrightarrow>
   User_findById js s str = Inr None \<longleftrightarrow> i \<notin> user_id ` set (users s)"
  by (auto simp: User_findById_def find_None_iff)

lemma findById_Some:
  "User_findById js s str = Inr (Some u) \<Longrightarrow>
   u \<in> set (users s) \<and> castObjectId js str = Some (user_id u)"
  by (auto simp: User_findById_def find_Some_iff split: option.splits)

lemma findById_malformed:
  "castObjectId js str = None \<Longrightarrow> User_findById js s str = Inl CastError"
  by (simp add: User_findById_def)

lemma find_append_Some: "find P xs = Some u \<Longrightarrow> find P (xs @ ys) = Some u"
  by (induction xs) auto

subsection \<open>The query the log handler builds\<close>

lemma logQuery_options:
  "cond_userId (logQuery js now r) = logs_id r"
  "opt_sort_date (logQuery js now r) = True"
  "opt_limit (logQuery js now r) = map_option (parseInt js) (given (query_limit r))"
  by (auto simp: logQuery_def Let_def limit_def sort_date_def gte_def lte_def
      Exercise_find_def split: option.splits)

lemma logQuery_gte:
  "cond_gte (logQuery js now r) =
     (if truthy (query_from r) \<or> truthy (query_to r)
      then Some (case given (query_from r) of
                   None \<Rightarrow> Bound_num 0
                 | Some f \<Rightarrow> Bound_date (newDate js f))
      else None)"
  by (auto simp: logQuery_def Let_def limit_def sort_date_def gte_def lte_def
      Exercise_find_def split: option.splits)

lemma logQuery_lte:
  "cond_lte (logQuery js now r) =
     (if truthy (query_from r) \<or> truthy (query_to r)
      then Some (case given (query_to r) of
                   None \<Rightarrow> Bound_date (Date now)
                 | Some t \<Rightarrow> Bound_date (newDate js t))
      else None)"
  by (auto simp: logQuery_def Let_def limit_def sort_date_def gte_def lte_def
      Exercise_find_def split: option.splits)

lemma exec_logQuery:
  assumes "castObjectId js (logs_id r) = Some uid"
  shows "exec js s (logQuery js now r) =
     (case cast_cond (cond_gte (logQuery js now r)) of
        Inl e \<Rightarrow> Inl e
      | Inr lo \<Rightarrow>
          (case cast_cond (cond_lte (logQuery js now r)) of
             Inl e \<Rightarrow> Inl e
           | Inr hi \<Rightarrow>
               apply_limit (map_option (parseInt js) (given (query_limit r)))
                 (sort_key date (filter (matches uid lo hi) (exercises s)))))"
  using assms by (simp add: exec_def logQuery_options apply_sort_def split: sum.splits)

lemma filter_matches:
  "filter (matches uid lo hi) xs =
   filter (\<lambda>e. userId e = uid \<and> spec_date_filter lo hi (date e)) xs"
  by (rule filter_cong) (auto simp: matches_def spec_date_filter_def)

lemma getLogs_range:
  assumes "User_findById js s (logs_id r) = Inr (Some u)"
    and "given (query_limit r) = None"
    and "cast_cond (cond_gte (logQuery js now r)) = Inr lo"
    and "cast_cond (cond_lte (logQuery js now r)) = Inr hi"
    and "\<And>d. P d = spec_date_filter lo hi d"
  shows "getLogs js now s r =
     Json 200 (Log_body (user_id u) (username u)
       (length (user_log js s (user_id u) P)) (user_log js s (user_id u) P))"
proof -
  have c: "castObjectId js (logs_id r) = Some (user_id u)"
    using findById_Some[OF assms(1)] by simp
  show ?thesis
    using assms
    by (simp add: getLogs_def exec_logQuery[OF c] Let_def user_log_def filter_matches)
qed

lemma getLogs_all:
  assumes "User_findById js s str = Inr (Some u)"
  shows "getLogs js now s
           \<lparr>logs_id = str, query_from = None, query_to = None, query_limit = None\<rparr> =
     Json 200 (Log_body (user_id u) (username u)
       (length (user_log js s (user_id u) (\<lambda>d. True))) (user_log js s (user_id u) (\<lambda>d. True)))"
  using assms
  by (intro getLogs_range[where lo = None and hi = None])
     (simp_all add: logQuery_gte logQuery_lte truthy_def given_def spec_date_filter_def)

subsection \<open>Sorting and taking a prefix\<close>


subsection \<open>The collections only grow\<close>

lemma handle_extends:
  "\<exists>us es. users (snd (handle js start now s rq)) = users s @ us
         \<and> exercises (snd (handle js start now s rq)) = exercises s @ es"
proof (cases rq)
  case (Create_user name)
  then show ?thesis
    by (auto simp: createUser_def User_save_def Let_def split: option.splits)
next
  case (Add_exercise r)
  then show ?thesis
    by (auto simp: addExercise_def Exercise_save_def Let_def
        split: option.splits sum.splits number.splits jsdate.splits)
qed simp_all

lemma run_extends:
  "\<exists>us es. users (run js start s rqs) = users s @ us
         \<and> exercises (run js start s rqs) = exercises s @ es"
proof (induction rqs arbitrary: s)
  case Nil
  then show ?case by simp
next
  case (Cons a rqs)
  obtain now rq where a: "a = (now, rq)" by (cases a)
  from handle_extends[of js start now s rq] Cons.IH[of "snd (handle js start now s rq)"]
  show ?case unfolding a by auto
qed

lemma handle_oids_below:
  assumes "oids_below s"
  shows "oids_below (snd (handle js start now s rq))"
proof (cases rq)
  case (Create_user name)
  then show ?thesis
    using assms
    by (auto simp: createUser_def User_save_def Let_def oids_below_def less_Suc_eq
        split: option.splits)
next
  case (Add_exercise r)
  then show ?thesis
    using assms
    by (auto simp: addExercise_def Exercise_save_def Let_def oids_below_def less_Suc_eq
        split: option.splits sum.splits number.splits jsdate.splits)
qed (use assms in simp_all)

lemma run_oids_below: "oids_below s \<Longrightarrow> oids_below (run js start s rqs)"
proof (induction rqs arbitrary: s)
  case Nil
  then show ?case by simp
next
  case (Cons a rqs)
  obtain now rq where a: "a = (now, rq)" by (cases a)
  show ?case unfolding a using Cons handle_oids_below by simp
qed

lemma oids_below_empty: "oids_below \<lparr>users = [], exercises = [], next_oid = 0\<rparr>"
  by (simp add: oids_below_def)

lemma addExercise_ok:
  assumes "addExercise js start now s r = (Json 200 b, s')"
  shows "\<exists>d m n t u. body_description r = Some d \<and> body_duration r = Some m
     \<and> parseInt js m = Num n \<and> User_findById js s (params_id r) = Inr (Some u)
     \<and> s' = s\<lparr>exercises := exercises s @
                 [\<lparr>exercise_id = next_oid s, userId = user_id u, description = d,
                   duration = n, date = t\<rparr>],
               next_oid := Suc (next_oid s)\<rparr>"
  using assms
  by (auto simp: addExercise_def Exercise_save_def Let_def truthy_def given_def
        split: option.splits sum.splits number.splits jsdate.splits if_splits)

section \<open>POST /api/users\<close>

text \<open>
  Claim C5. Creating a user whose \<open>username\<close> equals that of an existing user fails with
  status 500 and the fixed body \<open>{error: "Could not create user"}\<close>, which says nothing
  of the cause, and the store is unchanged, so no second user of that name exists. For a
  (non-empty) username not yet present, the answer carries that username and a newly
  generated identifier, one that no stored document has, and the user is appended.
\<close>

theorem createUser_duplicate_or_fresh:
  assumes "oids_below s"
  shows "(name \<in> set (map username (users s)) \<longrightarrow>
            createUser s (Some name) = (Json 500 (Error_body ''Could not create user''), s))
       \<and> (name \<noteq> [] \<and> name \<notin> set (map username (users s)) \<longrightarrow>
            createUser s (Some name) =
              (Json 200 (User_body name (next_oid s)),
               s\<lparr>users := users s @ [\<lparr>user_id = next_oid s, username = name\<rparr>],
                 next_oid := Suc (next_oid s)\<rparr>)
            \<and> next_oid s \<notin> set (map user_id (users s))
            \<and> next_oid s \<notin> set (map exercise_id (exercises s)))"
  using assms by (auto simp: createUser_def User_save_def oids_below_def Let_def)

theorem createUser_duplicate_or_fresh_witness:
  "createUser sample_db (Some ''ana'') =
     (Json 500 (Error_body ''Could not create user''), sample_db)
   \<and> createUser sample_db (Some ''bob'') =
     (Json 200 (User_body ''bob'' 4),
      sample_db\<lparr>users := [\<lparr>user_id = 0, username = ''ana''\<rparr>, \<lparr>user_id = 4, username = ''bob''\<rparr>],
        next_oid := 5\<rparr>)"
proof -
  have inv: "oids_below sample_db" by code_simp
  have names: "map username (users sample_db) = [''ana'']" by code_simp
  have us: "users sample_db = [\<lparr>user_id = 0, username = ''ana''\<rparr>]" by code_simp
  have nxt: "next_oid sample_db = 4" by code_simp
  from createUser_duplicate_or_fresh[OF inv, of "''ana''"]
  have dup: "createUser sample_db (Some ''ana'') =
     (Json 500 (Error_body ''Could not create user''), sample_db)"
    by (simp add: names)
  from createUser_duplicate_or_fresh[OF inv, of "''bob''"]
  have fresh: "createUser sample_db (Some ''bob'') =
     (Json 200 (User_body ''bob'' 4),
      sample_db\<lparr>users := [\<lparr>user_id = 0, username = ''ana''\<rparr>, \<lparr>user_id = 4, username = ''bob''\<rparr>],
        next_oid := 5\<rparr>)"
    by (simp add: names us nxt)
  from dup fresh show ?thesis by simp
qed

text \<open>
  Claim C10. A create-user request whose \<open>username\<close> is missing or empty fails with the
  same status 500 and body as every failure of the save (a duplicate included), the
  handler never answers 400, and the store is unchanged.
\<close>

theorem createUser_missing_username:
  "createUser s None = (Json 500 (Error_body ''Could not create user''), s)
   \<and> createUser s (Some []) = (Json 500 (Error_body ''Could not create user''), s)
   \<and> (\<forall>name err. User_save s name = Inl err \<longrightarrow>
         createUser s name = (Json 500 (Error_body ''Could not create user''), s))
   \<and> (\<forall>name b. fst (createUser s name) \<noteq> Json 400 b)"
  by (auto simp: createUser_def User_save_def Let_def split: option.splits sum.splits)

theorem createUser_missing_username_witness:
  "User_save sample_db (Some ''ana'') = Inl DuplicateKey
   \<and> createUser sample_db (Some ''ana'') = createUser sample_db None
   \<and> createUser sample_db (Some ''ana'') = createUser sample_db (Some [])"
proof -
  have d: "User_save sample_db (Some ''ana'') = Inl DuplicateKey" by code_simp
  from createUser_missing_username[of sample_db] d show ?thesis by simp
qed

section \<open>POST /api/users/:_id/exercises\<close>

text \<open>With both fields present, the answer depends on the route identifier: one that
  casts and is the \<open>_id\<close> of no stored user gives 404 and an unchanged store; one that
  does not cast makes the lookup of line 95 fail, and since that \<open>await\<close> stands before
  the \<open>try\<close> of line 111, the handler sends nothing.\<close>

lemma addExercise_unknown_wellformed:
  assumes "truthy (body_description r)"
    and "truthy (body_duration r)"
    and "castObjectId js (params_id r) = Some i"
    and "i \<notin> user_id ` set (users s)"
  shows "addExercise js start now s r = (Json 404 (Error_body ''User not found''), s)"
proof -
  have "User_findById js s (params_id r) = Inr None"
    using assms(3,4) by (simp add: findById_None)
  then show ?thesis using assms(1,2) by (simp add: addExercise_def)
qed

lemma addExercise_malformed_id:
  assumes "truthy (body_description r)"
    and "truthy (body_duration r)"
    and "castObjectId js (params_id r) = None"
  shows "addExercise js start now s r = (Unhandled CastError, s)"
  using assms by (simp add: addExercise_def findById_malformed)

text \<open>
  Claim C6. The claim: with \<open>description\<close> and \<open>duration\<close> present and a \<open>userId\<close> that
  references no existing user, the operation fails with a not-found error and creates
  no exercise. The code at the route \<open>/api/users/7/exercises\<close>, whose identifier
  references no user: \<open>"7"\<close> is not the string form of an identifier, the lookup of line
  95 is rejected with a cast error outside every \<open>try\<close>, and no 404 (no response at all)
  is sent; the store is unchanged. For an identifier that casts and references no user
  the handler does answer 404 (\<open>addExercise_unknown_wellformed\<close>).
\<close>

theorem addExercise_malformed_id_unhandled:
  "castObjectId sample_js ''7'' = None
   \<and> addExercise sample_js 5 172800000 sample_db
     \<lparr>params_id = ''7'', body_description = Some ''row'', body_duration = Some ''30'',
      body_date = None\<rparr>
   = (Unhandled CastError, sample_db)
   \<and> addExercise sample_js 5 172800000 sample_db
     \<lparr>params_id = ''000000000000000000000007'', body_description = Some ''row'',
      body_duration = Some ''30'', body_date = None\<rparr>
   = (Json 404 (Error_body ''User not found''), sample_db)"
  by code_simp

theorem addExercise_malformed_id_unhandled_witness:
  "fst (addExercise sample_js 5 172800000 sample_db
     \<lparr>params_id = ''7'', body_description = Some ''row'', body_duration = Some ''30'',
      body_date = None\<rparr>) = Unhandled CastError
   \<and> exercises (snd (addExercise sample_js 5 172800000 sample_db
     \<lparr>params_id = ''7'', body_description = Some ''row'', body_duration = Some ''30'',
      body_date = None\<rparr>)) = exercises sample_db"
  using addExercise_malformed_id_unhandled by simp

text \<open>
  Claim C8. With \<open>description\<close> and \<open>duration\<close> present, an existing user and a supplied
  \<open>date\<close> that \<open>new Date\<close> cannot parse (it yields the Invalid Date), adding an exercise
  answers 400 \<open>Invalid date format\<close> and leaves the store unchanged: no exercise is
  persisted.
\<close>

theorem addExercise_invalid_date:
  assumes "truthy (body_description r)"
    and "truthy (body_duration r)"
    and "User_findById js s (params_id r) = Inr (Some u)"
    and "body_date r = Some d"
    and "d \<noteq> []"
    and "newDate js d = InvalidDate"
  shows "addExercise js start now s r = (Json 400 (Error_body ''Invalid date format''), s)"
  using assms by (simp add: addExercise_def exerciseDate_def given_def)

theorem addExercise_invalid_date_witness:
  "addExercise sample_js 5 172800000 sample_db
     \<lparr>params_id = ''000000000000000000000000'', body_description = Some ''row'',
      body_duration = Some ''30'', body_date = Some ''not-a-date''\<rparr>
   = (Json 400 (Error_body ''Invalid date format''), sample_db)"
proof -
  let ?r = "\<lparr>params_id = ''000000000000000000000000'', body_description = Some ''row'',
             body_duration = Some ''30'', body_date = Some ''not-a-date''\<rparr>"
  have a: "truthy (body_description ?r)" by code_simp
  have b: "truthy (body_duration ?r)" by code_simp
  have u: "User_findById sample_js sample_db (params_id ?r)
             = Inr (Some \<lparr>user_id = 0, username = ''ana''\<rparr>)"
    by code_simp
  have d: "body_date ?r = Some ''not-a-date''" by simp
  have e: "''not-a-date'' \<noteq> []" by simp
  have p: "newDate sample_js ''not-a-date'' = InvalidDate" by code_simp
  from addExercise_invalid_date[OF a b u d e p] show ?thesis .
qed

text \<open>
  Claim C2. When \<open>date\<close> is omitted (or empty), with a non-empty description, a duration
  that \<open>parseInt\<close> reads as a number and an existing user, the exercise is persisted with
  the clock value of the request, \<open>now\<close>, whatever the value \<open>start\<close> that the schema
  default captured when the process started, and the answer carries \<open>toDateString\<close> of
  that same moment.
\<close>

theorem addExercise_default_date:
  assumes "body_description r = Some d"
    and "d \<noteq> []"
    and "body_duration r = Some m"
    and "m \<noteq> []"
    and "parseInt js m = Num n"
    and "User_findById js s (params_id r) = Inr (Some u)"
    and "\<not> truthy (body_date r)"
  shows "addExercise js start now s r =
     (Json 200 (Exercise_body (user_id u) (username u) (toDateString js now) n d),
      s\<lparr>exercises := exercises s @
           [\<lparr>exercise_id = next_oid s, userId = user_id u, description = d, duration = n,
             date = now\<rparr>],
        next_oid := Suc (next_oid s)\<rparr>)"
  using assms
  by (simp add: addExercise_def exerciseDate_def given_def truthy_def Exercise_save_def
      Let_def split: option.splits)

theorem addExercise_default_date_witness:
  "addExercise sample_js 5 172800000 sample_db
     \<lparr>params_id = ''000000000000000000000000'', body_description = Some ''row'',
      body_duration = Some ''30'', body_date = None\<rparr>
   = (Json 200 (Exercise_body 0 ''ana'' ''Sat Jan 03 1970'' 30 ''row''),
      sample_db\<lparr>exercises := exercises sample_db @
          [\<lparr>exercise_id = 4, userId = 0, description = ''row'', duration = 30,
            date = 172800000\<rparr>],
        next_oid := 5\<rparr>)"
proof -
  let ?r = "\<lparr>params_id = ''000000000000000000000000'', body_description = Some ''row'',
             body_duration = Some ''30'', body_date = None\<rparr>"
  have u: "User_findById sample_js sample_db (params_id ?r)
             = Inr (Some \<lparr>user_id = 0, username = ''ana''\<rparr>)"
    by code_simp
  have p: "parseInt sample_js ''30'' = Num 30" by code_simp
  have t: "toDateString sample_js 172800000 = ''Sat Jan 03 1970''" by code_simp
  have d: "\<not> truthy (body_date ?r)" by code_simp
  have n: "next_oid sample_db = 4" by code_simp
  from addExercise_default_date[of ?r "''row''" "''30''" sample_js 30 sample_db _ 5 172800000,
      OF _ _ _ _ p u d]
  show ?thesis by (simp add: t n)
qed

section \<open>GET /api/users/:_id/logs\<close>

text \<open>
  Claim C9. In every answer of the log handler that carries a log, \<open>count\<close> is the number
  of entries of that \<open>log\<close>, which are the records the query returned after the date
  filter and the limit, not the number of exercises stored for the user.
\<close>

theorem getLogs_count:
  assumes "getLogs js now s r = Json st (Log_body i name c l)"
  shows "c = length l
       \<and> (\<exists>exs. exec js s (logQuery js now r) = Inr exs \<and> l = map (formatLog js) exs)"
  using assms by (auto simp: getLogs_def Let_def split: option.splits sum.splits)

theorem getLogs_count_witness:
  "getLogs sample_js 345600000 sample_db
     \<lparr>logs_id = ''000000000000000000000000'', query_from = None, query_to = None, query_limit = Some ''1''\<rparr>
   = Json 200 (Log_body 0 ''ana'' 1
       [\<lparr>log_description = ''run'', log_duration = 30, log_date = ''Wed Dec 31 1969''\<rparr>])
   \<and> (1::nat) = length
       [\<lparr>log_description = ''run'', log_duration = 30, log_date = ''Wed Dec 31 1969''\<rparr>]
   \<and> length (filter (\<lambda>e. userId e = 0) (exercises sample_db)) = 3"
proof -
  have g: "getLogs sample_js 345600000 sample_db
     \<lparr>logs_id = ''000000000000000000000000'', query_from = None, query_to = None, query_limit = Some ''1''\<rparr>
   = Json 200 (Log_body 0 ''ana'' 1
       [\<lparr>log_description = ''run'', log_duration = 30, log_date = ''Wed Dec 31 1969''\<rparr>])"
    by code_simp
  have t: "length (filter (\<lambda>e. userId e = 0) (exercises sample_db)) = 3" by code_simp
  from getLogs_count[OF g] g t show ?thesis by blast
qed







text \<open>A given bound that does not parse: \<open>new Date\<close> of it is the Invalid Date, an object
  and so truthy, which lines 163-164 hand to the query; the store refuses to cast it
  when the query runs, and the \<open>await\<close> of line 173 stands in no \<open>try\<close>.\<close>

lemma getLogs_invalid_bound:
  assumes "User_findById js s (logs_id r) = Inr (Some u)"
    and "(\<exists>f. given (query_from r) = Some f \<and> newDate js f = InvalidDate)
          \<or> (\<exists>t. given (query_to r) = Some t \<and> newDate js t = InvalidDate)"
  shows "getLogs js now s r = Unhandled CastError"
proof -
  have c: "castObjectId js (logs_id r) = Some (user_id u)"
    using findById_Some[OF assms(1)] by simp
  have "exec js s (logQuery js now r) = Inl CastError"
    using assms(2)
    by (auto simp: exec_logQuery[OF c] logQuery_gte logQuery_lte truthy_def
        split: option.splits sum.splits jsdate.splits elim!: castDate.elims)
  then show ?thesis using assms(1) by (simp add: getLogs_def)
qed

text \<open>
  Claim C4. The claim: on an existing user, an unparseable \<open>from\<close> or \<open>to\<close> produces no
  error and the endpoint still returns the \<open>{_id, username, count, log}\<close> shape. The code
  at \<open>from = "not-a-date"\<close> on the user of the sample store: the query is rejected with a
  cast error, nothing catches it, and the handler sends no response, neither the log
  shape nor an error answer. The other handlers catch the failures of the store (lines
  62, 76, 129), and the handler of \<open>POST /api/users/:_id/exercises\<close> answers 400 to an
  unparseable date (lines 104-106); this one does neither. With a bound that parses,
  the same request is answered with the log shape.
\<close>

theorem getLogs_unparseable_bound_unhandled:
  "newDate sample_js ''not-a-date'' = InvalidDate
   \<and> getLogs sample_js 345600000 sample_db
      \<lparr>logs_id = ''000000000000000000000000'', query_from = Some ''not-a-date'',
       query_to = None, query_limit = None\<rparr>
   = Unhandled CastError
   \<and> getLogs sample_js 345600000 sample_db
      \<lparr>logs_id = ''000000000000000000000000'', query_from = None,
       query_to = Some ''not-a-date'', query_limit = None\<rparr>
   = Unhandled CastError
   \<and> getLogs sample_js 345600000 sample_db
      \<lparr>logs_id = ''000000000000000000000000'', query_from = Some ''1970-01-03'',
       query_to = None, query_limit = None\<rparr>
   = Json 200 (Log_body 0 ''ana'' 1
       [\<lparr>log_description = ''swim'', log_duration = 45, log_date = ''Sun Jan 04 1970''\<rparr>])"
  by code_simp

section \<open>Round trip\<close>

text \<open>
  Claim C7. When adding an exercise succeeds, the stored exercise carries the supplied
  description and the integer that \<open>parseInt\<close> reads from the supplied duration, and so
  does its entry in the log: after any further requests, served at any times, the
  unfiltered log of that user, asked at any time, contains the entry of this exercise,
  with the description and the duration supplied at creation.
\<close>

theorem addExercise_log_roundtrip:
  assumes "addExercise js start now s r = (Json 200 b, s')"
  shows "\<exists>d m n e. body_description r = Some d \<and> body_duration r = Some m
      \<and> parseInt js m = Num n
      \<and> exercises s' = exercises s @ [e] \<and> castObjectId js (params_id r) = Some (userId e)
      \<and> log_description (formatLog js e) = d \<and> log_duration (formatLog js e) = n
      \<and> (\<forall>rest now'. \<exists>name c l.
            getLogs js now' (run js start s' rest)
              \<lparr>logs_id = params_id r, query_from = None, query_to = None, query_limit = None\<rparr>
              = Json 200 (Log_body (userId e) name c l)
            \<and> formatLog js e \<in> set l)"
proof -
  from addExercise_ok[OF assms] obtain d m n t u where
    d: "body_description r = Some d" and m: "body_duration r = Some m"
    and n: "parseInt js m = Num n" and u: "User_findById js s (params_id r) = Inr (Some u)"
    and s': "s' = s\<lparr>exercises := exercises s @
                 [\<lparr>exercise_id = next_oid s, userId = user_id u, description = d,
                   duration = n, date = t\<rparr>],
               next_oid := Suc (next_oid s)\<rparr>"
    by blast
  define e where "e = \<lparr>exercise_id = next_oid s, userId = user_id u, description = d,
                       duration = n, date = t\<rparr>"
  have uid: "castObjectId js (params_id r) = Some (user_id u)"
    using findById_Some[OF u] by simp
  have fu: "find (\<lambda>x. user_id x = user_id u) (users s) = Some u"
    using u uid by (simp add: User_findById_def)
  have ex: "exercises s' = exercises s @ [e]" by (simp add: s' e_def)
  have later: "\<exists>name c l.
            getLogs js now' (run js start s' rest)
              \<lparr>logs_id = params_id r, query_from = None, query_to = None, query_limit = None\<rparr>
              = Json 200 (Log_body (userId e) name c l)
            \<and> formatLog js e \<in> set l" for rest now'
  proof -
    obtain us es where us: "users (run js start s' rest) = users s' @ us"
      and es: "exercises (run js start s' rest) = exercises s' @ es"
      using run_extends[of js start s' rest] by blast
    have "User_findById js (run js start s' rest) (params_id r) = Inr (Some u)"
      using fu uid us by (simp add: User_findById_def s' find_append_Some)
    from getLogs_all[OF this, of now']
    have g: "getLogs js now' (run js start s' rest)
              \<lparr>logs_id = params_id r, query_from = None, query_to = None, query_limit = None\<rparr>
             = Json 200 (Log_body (user_id u) (username u)
                 (length (user_log js (run js start s' rest) (user_id u) (\<lambda>d. True)))
                 (user_log js (run js start s' rest) (user_id u) (\<lambda>d. True)))"
      by simp
    have "formatLog js e \<in> set (user_log js (run js start s' rest) (user_id u) (\<lambda>d. True))"
      by (simp add: user_log_def es ex) (simp add: e_def)
    with g show ?thesis by (auto simp: e_def)
  qed
  show ?thesis
    using d m n ex later
    by (intro exI[of _ d] exI[of _ m] exI[of _ n] exI[of _ e])
       (simp add: e_def uid formatLog_def)
qed

theorem addExercise_log_roundtrip_witness:
  "addExercise sample_js 5 172800000 sample_db
     \<lparr>params_id = ''000000000000000000000000'', body_description = Some ''row'',
      body_duration = Some ''30'', body_date = None\<rparr>
   = (Json 200 (Exercise_body 0 ''ana'' ''Sat Jan 03 1970'' 30 ''row''), sample_db_row)
   \<and> \<lparr>log_description = ''row'', log_duration = 30, log_date = ''Sat Jan 03 1970''\<rparr>
      \<in> set (user_log sample_js
           (run sample_js 5 sample_db_row [(172800001, Create_user (Some ''bob''))])
           0 (\<lambda>d. True))"
  (is "?A = (?b, _) \<and> ?e \<in> set (user_log _ ?s2 _ _)")
proof -
  have h: "?A = (?b, sample_db_row)" by code_simp
  have u: "User_findById sample_js ?s2 ''000000000000000000000000''
             = Inr (Some \<lparr>user_id = 0, username = ''ana''\<rparr>)"
    by code_simp
  from addExercise_log_roundtrip[OF h] obtain e where
    e: "exercises sample_db_row = exercises sample_db @ [e]"
    and l: "\<And>rest now'. \<exists>name c l.
            getLogs sample_js now' (run sample_js 5 sample_db_row rest)
              \<lparr>logs_id = ''000000000000000000000000'', query_from = None, query_to = None,
               query_limit = None\<rparr>
              = Json 200 (Log_body (userId e) name c l)
            \<and> formatLog sample_js e \<in> set l"
    by auto
  have e0: "e = \<lparr>exercise_id = 4, userId = 0, description = ''row'', duration = 30,
                 date = 172800000\<rparr>"
    using e by (simp add: sample_db_def sample_db_row_def)
  have f: "formatLog sample_js e = ?e" unfolding e0 by code_simp
  from l[of 0 "[(172800001, Create_user (Some ''bob''))]"]
  have "?e \<in> set (user_log sample_js ?s2 0 (\<lambda>d. True))"
    unfolding f getLogs_all[OF u] by auto
  with h show ?thesis by blast
qed

end
